theory Spec2Isabelle
  imports Complex_Main
begin

section \<open>The e-commerce checkout of \<open>eCommerce.cpp\<close>\<close>

text \<open>
  The program keeps products on the heap behind \<open>shared_ptr\<close>, so that several cart
  lines (and the caller) see one and the same product object. The embedding makes that
  sharing explicit: a \<open>ref\<close> is the address of a product object and the \<open>heap\<close> maps every
  address to the object it holds. A \<open>shared_ptr\<close> never dangles, and the program never
  stores a null one in a cart, so the heap is a total function.

  Conventions of the embedding:
  \<^item> An \<open>int\<close> is a mathematical integer between \<open>INT_MIN\<close> and \<open>INT_MAX\<close>, 32 bits wide.
    The one arithmetic operation of the program on \<open>int\<close> is \<open>quantity -= amount\<close>; its
    result is wrapped into that range by \<open>wrap_int\<close>, as the compiled program does when the
    subtraction overflows (C++ itself leaves a signed overflow undefined). No theorem
    about the value of a stock relies on the wrapped result: each has the hypothesis that
    the subtraction stays in range. A \<open>time_t\<close> is only compared.
  \<^item> \<open>double\<close> is read as \<open>real\<close>: rounding, infinities and NaN are outside the embedding.
  \<^item> \<open>time(nullptr)\<close> is an input, the parameter \<open>now\<close>.
  \<^item> \<open>throw runtime_error(msg)\<close> is the value \<open>Some (runtime_error msg)\<close> in the first
    component of the result; the other components are the objects the function reaches
    through non-const references, as the throw leaves them.
  \<^item> \<open>cout\<close> is the list of the operands inserted into it with \<open><<\<close>, manipulators
    included, in the order of insertion.
\<close>

subsection \<open>Products\<close>

type_synonym time_t = int
type_synonym ref = nat

datatype error = runtime_error string

text \<open>The three concrete classes, each with the members it adds to \<open>Product\<close>.\<close>

datatype Derived =
    ExpirableProduct time_t
  | ShippableProduct real
  | DigitalProduct

record Product =
  name :: string
  price :: real
  quantity :: int
  derived :: Derived

type_synonym heap = "ref \<Rightarrow> Product"

definition INT_MAX :: int where
  "INT_MAX = 2147483647"

definition INT_MIN :: int where
  "INT_MIN = - 2147483648"

definition wrap_int :: "int \<Rightarrow> int" where
  "wrap_int x = (x - INT_MIN) mod 4294967296 + INT_MIN"

definition reduceQuantity :: "int \<Rightarrow> Product \<Rightarrow> error option \<times> Product" where
  "reduceQuantity amount p =
     (if amount > quantity p then (Some (runtime_error ''Not enough stock.''), p)
      else (None, p\<lparr>quantity := wrap_int (quantity p - amount)\<rparr>))"

definition isExpired :: "time_t \<Rightarrow> Product \<Rightarrow> bool" where
  "isExpired now p =
     (case derived p of
        ExpirableProduct expiryDate \<Rightarrow> now > expiryDate
      | ShippableProduct weight \<Rightarrow> False
      | DigitalProduct \<Rightarrow> False)"

definition isShippable :: "Product \<Rightarrow> bool" where
  "isShippable p =
     (case derived p of
        ExpirableProduct expiryDate \<Rightarrow> True
      | ShippableProduct weight \<Rightarrow> True
      | DigitalProduct \<Rightarrow> False)"

text \<open>
  The interface \<open>Shippable\<close> has the two getters \<open>getName\<close> and \<open>getWeight\<close>. Neither the
  name nor the weight of an object is ever assigned after construction, so a pointer to
  the \<open>Shippable\<close> part of an object is modelled by the two values the getters return.
  Only \<open>ShippableProduct\<close> derives from \<open>Shippable\<close>: for an object of any other class
  \<open>dynamic_pointer_cast<Shippable>\<close> is the null pointer, \<open>None\<close>.
\<close>

record Shippable =
  getName :: string
  getWeight :: real

definition dynamic_pointer_cast_Shippable :: "Product \<Rightarrow> Shippable option" where
  "dynamic_pointer_cast_Shippable p =
     (case derived p of
        ExpirableProduct expiryDate \<Rightarrow> None
      | ShippableProduct weight \<Rightarrow> Some \<lparr>getName = name p, getWeight = weight\<rparr>
      | DigitalProduct \<Rightarrow> None)"

subsection \<open>Cart\<close>

record CartItem =
  item_product :: ref
  item_quantity :: int

type_synonym Cart = "CartItem list"

definition getTotalPrice :: "heap \<Rightarrow> CartItem \<Rightarrow> real" where
  "getTotalPrice h item = price (h (item_product item)) * of_int (item_quantity item)"

definition addToCart :: "heap \<Rightarrow> Cart \<Rightarrow> ref \<Rightarrow> int \<Rightarrow> error option \<times> heap \<times> Cart" where
  "addToCart h items product n =
     (if quantity (h product) < n then (Some (runtime_error ''Insufficient stock.''), h, items)
      else (None, h, items @ [\<lparr>item_product = product, item_quantity = n\<rparr>]))"

definition isEmpty :: "Cart \<Rightarrow> bool" where
  "isEmpty items = (items = [])"

fun subtotal_loop :: "heap \<Rightarrow> CartItem list \<Rightarrow> real \<Rightarrow> real" where
  "subtotal_loop h [] acc = acc"
| "subtotal_loop h (item # rest) acc = subtotal_loop h rest (acc + getTotalPrice h item)"

definition calculateSubtotal :: "heap \<Rightarrow> Cart \<Rightarrow> real" where
  "calculateSubtotal h items = subtotal_loop h items 0"

fun fee_loop :: "heap \<Rightarrow> CartItem list \<Rightarrow> real \<Rightarrow> real" where
  "fee_loop h [] fee = fee"
| "fee_loop h (item # rest) fee =
     (case dynamic_pointer_cast_Shippable (h (item_product item)) of
        Some shippable \<Rightarrow>
          fee_loop h rest (fee + getWeight shippable * of_int (item_quantity item) * 10)
      | None \<Rightarrow> fee_loop h rest fee)"

definition calculateShippingFee :: "heap \<Rightarrow> Cart \<Rightarrow> real" where
  "calculateShippingFee h items = fee_loop h items 0"

fun shippable_loop :: "heap \<Rightarrow> CartItem list \<Rightarrow> (Shippable \<times> int) list \<Rightarrow> (Shippable \<times> int) list" where
  "shippable_loop h [] result = result"
| "shippable_loop h (item # rest) result =
     (case dynamic_pointer_cast_Shippable (h (item_product item)) of
        Some shippable \<Rightarrow> shippable_loop h rest (result @ [(shippable, item_quantity item)])
      | None \<Rightarrow> shippable_loop h rest result)"

definition getShippableItems :: "heap \<Rightarrow> Cart \<Rightarrow> (Shippable \<times> int) list" where
  "getShippableItems h items = shippable_loop h items []"

subsection \<open>Customer\<close>

record Customer =
  customer_name :: string
  balance :: real

definition deductBalance :: "real \<Rightarrow> Customer \<Rightarrow> error option \<times> Customer" where
  "deductBalance amount c =
     (if balance c < amount then (Some (runtime_error ''Insufficient balance.''), c)
      else (None, c\<lparr>balance := balance c - amount\<rparr>))"

subsection \<open>Output\<close>

datatype insertion =
    OutStr string
  | OutInt int
  | OutDouble real
  | fixed
  | setprecision nat

type_synonym ostream = "insertion list"

definition tab :: string where
  "tab = [CHR 0x09]"

subsection \<open>ShippingService\<close>

fun ship_loop :: "(Shippable \<times> int) list \<Rightarrow> real \<Rightarrow> ostream \<Rightarrow> real \<times> ostream" where
  "ship_loop [] totalWeight os = (totalWeight, os)"
| "ship_loop ((item, qty) # rest) totalWeight os =
     (let weight = getWeight item * of_int qty
      in ship_loop rest (totalWeight + weight)
           (os @ [OutInt qty, OutStr ''x '', OutStr (getName item), OutStr tab,
                  fixed, setprecision 0, OutDouble (weight * 1000), OutStr ''g\<newline>'']))"

definition ship :: "(Shippable \<times> int) list \<Rightarrow> ostream \<Rightarrow> ostream" where
  "ship items os =
     (case ship_loop items 0 (os @ [OutStr ''\<newline>** Shipment notice **\<newline>'']) of
        (totalWeight, os') \<Rightarrow>
          os' @ [OutStr ''Total package weight '', fixed, setprecision 1,
                 OutDouble totalWeight, OutStr ''kg\<newline>''])"

subsection \<open>CheckoutService\<close>

record State =
  products :: heap
  customer :: Customer
  cout :: ostream

fun validate_loop :: "time_t \<Rightarrow> heap \<Rightarrow> CartItem list \<Rightarrow> error option" where
  "validate_loop now h [] = None"
| "validate_loop now h (item # rest) =
     (if isExpired now (h (item_product item))
      then Some (runtime_error (name (h (item_product item)) @ '' is expired.''))
      else if quantity (h (item_product item)) < item_quantity item
      then Some (runtime_error (name (h (item_product item)) @ '' is out of stock.''))
      else validate_loop now h rest)"

fun reduce_loop :: "heap \<Rightarrow> CartItem list \<Rightarrow> error option \<times> heap" where
  "reduce_loop h [] = (None, h)"
| "reduce_loop h (item # rest) =
     (case reduceQuantity (item_quantity item) (h (item_product item)) of
        (Some e, p') \<Rightarrow> (Some e, h(item_product item := p'))
      | (None, p') \<Rightarrow> reduce_loop (h(item_product item := p')) rest)"

fun receipt_loop :: "heap \<Rightarrow> CartItem list \<Rightarrow> ostream \<Rightarrow> ostream" where
  "receipt_loop h [] out = out"
| "receipt_loop h (item # rest) out =
     receipt_loop h rest
       (out @ [OutInt (item_quantity item), OutStr ''x '', OutStr (name (h (item_product item))),
               OutStr tab, OutDouble (getTotalPrice h item), OutStr ''\<newline>''])"

definition checkout :: "time_t \<Rightarrow> State \<Rightarrow> Cart \<Rightarrow> error option \<times> State" where
  "checkout now st cart =
     (if isEmpty cart then (Some (runtime_error ''Cart is empty.''), st)
      else
        (case validate_loop now (products st) cart of
           Some e \<Rightarrow> (Some e, st)
         | None \<Rightarrow>
            (let subtotal = calculateSubtotal (products st) cart;
                 shippingFee = calculateShippingFee (products st) cart;
                 total = subtotal + shippingFee
             in if balance (customer st) < total
                then (Some (runtime_error ''Insufficient customer balance.''), st)
                else
                  (case reduce_loop (products st) cart of
                     (Some e, h') \<Rightarrow> (Some e, st\<lparr>products := h'\<rparr>)
                   | (None, h') \<Rightarrow>
                      (case deductBalance total (customer st) of
                         (Some e, c') \<Rightarrow> (Some e, st\<lparr>products := h', customer := c'\<rparr>)
                       | (None, c') \<Rightarrow>
                          (let shippableItems = getShippableItems h' cart;
                               out1 = (if shippableItems \<noteq> []
                                       then ship shippableItems (cout st) else cout st);
                               out2 = out1 @ [OutStr ''\<newline>** Checkout receipt **\<newline>''];
                               out3 = receipt_loop h' cart out2;
                               out4 = out3 @
                                 [OutStr ''----------------------\<newline>'',
                                  OutStr (''Subtotal'' @ tab), OutDouble subtotal, OutStr ''\<newline>'',
                                  OutStr (''Shipping'' @ tab), OutDouble shippingFee, OutStr ''\<newline>'',
                                  OutStr (''Amount'' @ tab), OutDouble total, OutStr ''\<newline>'']
                           in (None, \<lparr>products = h', customer = c', cout = out4\<rparr>)))))))"

subsection \<open>What the stream prints\<close>

text \<open>
  The text that reaches the terminal depends on the formatting state of the stream, which
  \<open>fixed\<close> and \<open>setprecision\<close> change for every later insertion. \<open>render\<close> replays a list
  of insertions from a given formatting state. An \<open>int\<close> prints in decimal. A \<open>double\<close>
  prints, once \<open>fixed\<close> is set, as its value rounded to \<open>precision\<close> fractional digits
  (ties to even); the default floating-point notation is not described here and is the
  parameter \<open>general\<close>.
\<close>

definition digit :: "nat \<Rightarrow> char" where
  "digit d = ''0123456789'' ! d"

fun show_nat :: "nat \<Rightarrow> string" where
  "show_nat n = (if n < 10 then [digit n] else show_nat (n div 10) @ [digit (n mod 10)])"

declare show_nat.simps [simp del]

definition show_int :: "int \<Rightarrow> string" where
  "show_int i = (if i < 0 then ''-'' @ show_nat (nat (- i)) else show_nat (nat i))"

definition round_half_even :: "real \<Rightarrow> int" where
  "round_half_even x =
     (let f = \<lfloor>x\<rfloor>; d = x - of_int f
      in if d < 1 / 2 then f else if 1 / 2 < d then f + 1 else if even f then f else f + 1)"

definition show_fixed :: "nat \<Rightarrow> real \<Rightarrow> string" where
  "show_fixed p v =
     (let n = nat (round_half_even (\<bar>v\<bar> * 10 ^ p));
          frac = show_nat (n mod 10 ^ p)
      in (if v < 0 then ''-'' else []) @ show_nat (n div 10 ^ p) @
         (if p = 0 then [] else ''.'' @ replicate (p - length frac) (CHR ''0'') @ frac))"

record fmtflags =
  floatfield_fixed :: bool
  precision :: nat

fun render :: "(nat \<Rightarrow> real \<Rightarrow> string) \<Rightarrow> fmtflags \<Rightarrow> ostream \<Rightarrow> string" where
  "render general f [] = []"
| "render general f (OutStr s # os) = s @ render general f os"
| "render general f (OutInt i # os) = show_int i @ render general f os"
| "render general f (OutDouble v # os) =
     (if floatfield_fixed f then show_fixed (precision f) v else general (precision f) v)
     @ render general f os"
| "render general f (fixed # os) = render general (f\<lparr>floatfield_fixed := True\<rparr>) os"
| "render general f (setprecision n # os) = render general (f\<lparr>precision := n\<rparr>) os"

subsection \<open>Quantities ordered per product\<close>

text \<open>
  Several cart lines may point to one product. \<open>ordered_quantity items r\<close> adds up the
  quantities of the lines of \<open>items\<close> whose product is the object at address \<open>r\<close>.
\<close>

definition ordered_quantity :: "CartItem list \<Rightarrow> ref \<Rightarrow> int" where
  "ordered_quantity items r =
     sum_list (map item_quantity (filter (\<lambda>item. item_product item = r) items))"

subsection \<open>The catalog of \<open>main\<close>\<close>

text \<open>
  The four products that \<open>main\<close> creates, at the addresses 0 to 3, and a perishable product
  at address 4. The weights 0.2 and 0.7 are written as fractions.
\<close>

definition cheese :: Product where
  "cheese = \<lparr>name = ''Cheese'', price = 100, quantity = 10, derived = ShippableProduct (2 / 10)\<rparr>"

definition biscuits :: Product where
  "biscuits = \<lparr>name = ''Biscuits'', price = 150, quantity = 5, derived = ShippableProduct (7 / 10)\<rparr>"

definition tv :: Product where
  "tv = \<lparr>name = ''TV'', price = 1000, quantity = 3, derived = ShippableProduct 10\<rparr>"

definition scratchCard :: Product where
  "scratchCard = \<lparr>name = ''Scratch Card'', price = 50, quantity = 100, derived = DigitalProduct\<rparr>"

definition milk :: Product where
  "milk = \<lparr>name = ''Milk'', price = 30, quantity = 4, derived = ExpirableProduct 86400\<rparr>"

definition catalog :: heap where
  "catalog = (\<lambda>r. scratchCard)(0 := cheese, 1 := biscuits, 2 := tv, 4 := milk)"

definition line :: "ref \<Rightarrow> int \<Rightarrow> CartItem" where
  "line r n = \<lparr>item_product = r, item_quantity = n\<rparr>"

definition shop :: "real \<Rightarrow> State" where
  "shop b =
     \<lparr>products = catalog, customer = \<lparr>customer_name = ''Kerolos'', balance = b\<rparr>, cout = []\<rparr>"

section \<open>Properties of the loops\<close>

lemma catalog_simps:
  "catalog 0 = cheese" "catalog 1 = biscuits" "catalog 2 = tv" "catalog 3 = scratchCard"
  "catalog 4 = milk" "catalog (Suc 0) = biscuits"
  by (simp_all add: catalog_def)

lemmas eval_defs = checkout_def isEmpty_def isExpired_def calculateSubtotal_def
  calculateShippingFee_def getTotalPrice_def dynamic_pointer_cast_Shippable_def
  reduceQuantity_def deductBalance_def getShippableItems_def ship_def Let_def
  shop_def line_def catalog_simps cheese_def biscuits_def tv_def scratchCard_def milk_def
  ordered_quantity_def wrap_int_def INT_MIN_def INT_MAX_def

lemma wrap_int_in_range: "INT_MIN \<le> x \<Longrightarrow> x \<le> INT_MAX \<Longrightarrow> wrap_int x = x"
  by (simp add: wrap_int_def INT_MIN_def INT_MAX_def)

lemma reduceQuantity_in_range:
  "amount \<le> quantity p \<Longrightarrow> quantity p - amount \<le> INT_MAX \<Longrightarrow>
   reduceQuantity amount p = (None, p\<lparr>quantity := quantity p - amount\<rparr>)"
  using wrap_int_in_range [of "quantity p - amount"]
  by (simp add: reduceQuantity_def INT_MIN_def)

text \<open>
  The wrap itself, at the stock of five biscuits and the amount \<open>INT_MIN\<close>: the amount passes
  the check, and the stock that results is negative.
\<close>

lemma reduceQuantity_wraps:
  "fst (reduceQuantity INT_MIN biscuits) = None \<and>
   quantity (snd (reduceQuantity INT_MIN biscuits)) = - 2147483643"
  by (simp add: reduceQuantity_def biscuits_def wrap_int_def INT_MIN_def)

lemma fee_loop_sum:
  "fee_loop h items fee =
     fee + (\<Sum>item\<leftarrow>items.
              case derived (h (item_product item)) of
                ExpirableProduct expiryDate \<Rightarrow> 0
              | ShippableProduct weight \<Rightarrow> weight * of_int (item_quantity item) * 10
              | DigitalProduct \<Rightarrow> 0)"
  by (induction items arbitrary: fee)
     (simp_all add: dynamic_pointer_cast_Shippable_def split: Derived.splits)

lemma shippable_loop_concat:
  "shippable_loop h items result =
     result @ concat (map (\<lambda>item.
        case derived (h (item_product item)) of
          ExpirableProduct expiryDate \<Rightarrow> []
        | ShippableProduct weight \<Rightarrow>
            [(\<lparr>getName = name (h (item_product item)), getWeight = weight\<rparr>, item_quantity item)]
        | DigitalProduct \<Rightarrow> []) items)"
  by (induction items arbitrary: result)
     (simp_all add: dynamic_pointer_cast_Shippable_def split: Derived.splits)

lemma no_Shippable_loops:
  "\<forall>item\<in>set items. dynamic_pointer_cast_Shippable (h (item_product item)) = None \<Longrightarrow>
   fee_loop h items fee = fee \<and> shippable_loop h items result = result"
  by (induction items) simp_all

lemma isShippable_cast:
  "\<not> isShippable p \<Longrightarrow> dynamic_pointer_cast_Shippable p = None"
  by (simp add: isShippable_def dynamic_pointer_cast_Shippable_def split: Derived.splits)

lemma cast_quantity_update [simp]:
  "dynamic_pointer_cast_Shippable (p\<lparr>quantity := q\<rparr>) = dynamic_pointer_cast_Shippable p"
  by (simp add: dynamic_pointer_cast_Shippable_def split: Derived.splits)

lemma receipt_loop_append: "receipt_loop h items out = out @ receipt_loop h items []"
proof (induction items arbitrary: out)
  case Nil
  show ?case by simp
next
  case (Cons item rest)
  show ?case
    using Cons.IH [of "out @ [OutInt (item_quantity item), OutStr ''x '',
        OutStr (name (h (item_product item))), OutStr tab,
        OutDouble (getTotalPrice h item), OutStr ''\<newline>'']"]
      Cons.IH [of "[OutInt (item_quantity item), OutStr ''x '',
        OutStr (name (h (item_product item))), OutStr tab,
        OutDouble (getTotalPrice h item), OutStr ''\<newline>'']"]
    by simp
qed

lemma show_fixed_1_0: "show_fixed (Suc 0) 0 = ''0.0''"
  by (simp add: show_fixed_def round_half_even_def show_nat.simps [of 0] digit_def)

subsection \<open>Validation\<close>

lemma validate_loop_append:
  "\<forall>i\<in>set pre. \<not> isExpired now (h (item_product i)) \<and>
       item_quantity i \<le> quantity (h (item_product i)) \<Longrightarrow>
   validate_loop now h (pre @ rest) = validate_loop now h rest"
  by (induction pre) simp_all

lemma validate_loop_pass:
  "\<forall>i\<in>set items. \<not> isExpired now (h (item_product i)) \<and>
       item_quantity i \<le> quantity (h (item_product i)) \<Longrightarrow>
   validate_loop now h items = None"
  using validate_loop_append [of items now h "[]"] by simp

lemma validate_loop_cong:
  "\<forall>i\<in>set items. h' (item_product i) = h (item_product i) \<Longrightarrow>
   validate_loop now h' items = validate_loop now h items"
  by (induction items) simp_all

subsection \<open>The commit phase\<close>

text \<open>
  Whenever the loop over \<open>reduceQuantity\<close> runs to its end, it has changed nothing of a
  product but its stock.
\<close>

lemma reduce_loop_cast:
  "reduce_loop h items = (None, h') \<Longrightarrow>
     dynamic_pointer_cast_Shippable (h' r) = dynamic_pointer_cast_Shippable (h r)"
proof (induction items arbitrary: h)
  case Nil
  then show ?case by simp
next
  case (Cons item rest)
  let ?p = "item_product item"
  let ?h1 = "h(?p := (h ?p)\<lparr>quantity := wrap_int (quantity (h ?p) - item_quantity item)\<rparr>)"
  from Cons.prems have rest: "reduce_loop ?h1 rest = (None, h')"
    by (auto simp: reduceQuantity_def split: if_splits)
  from Cons.IH [OF rest] show ?case by simp
qed

text \<open>
  When the loop runs to its end and no subtraction in it overflows, every product has lost
  the sum of the quantities of its lines. The stock that a product has after the first
  \<open>n\<close> lines is its stock before minus the quantities that these lines order of it; it is
  never negative after a subtraction, so that the subtractions stay in range when these
  differences are at most \<open>INT_MAX\<close>.
\<close>

lemma reduce_loop_ok:
  "reduce_loop h items = (None, h') \<Longrightarrow>
   \<forall>n\<le>length items. \<forall>item\<in>set items.
      quantity (h (item_product item)) - ordered_quantity (take n items) (item_product item)
        \<le> INT_MAX \<Longrightarrow>
   h' r = (h r)\<lparr>quantity := quantity (h r) - ordered_quantity items r\<rparr>"
proof (induction items arbitrary: h)
  case Nil
  then show ?case by (simp add: ordered_quantity_def)
next
  case (Cons item rest)
  let ?p = "item_product item"
  let ?h1 = "h(?p := (h ?p)\<lparr>quantity := quantity (h ?p) - item_quantity item\<rparr>)"
  from Cons.prems(2) [rule_format, of 1 item]
  have fits: "quantity (h ?p) - item_quantity item \<le> INT_MAX"
    by (simp add: ordered_quantity_def)
  from Cons.prems(1) have le: "item_quantity item \<le> quantity (h ?p)"
    by (auto simp: reduceQuantity_def split: if_splits)
  from Cons.prems(1) reduceQuantity_in_range [OF le fits]
  have rest: "reduce_loop ?h1 rest = (None, h')"
    by simp
  have range: "\<forall>n\<le>length rest. \<forall>i\<in>set rest.
      quantity (?h1 (item_product i)) - ordered_quantity (take n rest) (item_product i)
        \<le> INT_MAX"
  proof (intro allI impI ballI)
    fix n i
    assume "n \<le> length rest" and "i \<in> set rest"
    with Cons.prems(2) [rule_format, of "Suc n" i]
    show "quantity (?h1 (item_product i)) - ordered_quantity (take n rest) (item_product i)
        \<le> INT_MAX"
      by (auto simp: ordered_quantity_def split: if_splits)
  qed
  from Cons.IH [OF rest range]
  have "h' r = (?h1 r)\<lparr>quantity := quantity (?h1 r) - ordered_quantity rest r\<rparr>" .
  then show ?case by (simp add: ordered_quantity_def)
qed

text \<open>
  No subtraction overflows when no line orders a negative quantity and the stocks are
  values of an \<open>int\<close>.
\<close>

lemma ordered_quantity_nonneg:
  assumes "\<forall>item\<in>set items. 0 \<le> item_quantity item"
  shows "0 \<le> ordered_quantity (take n items) r"
proof -
  have "0 \<le> item_quantity item" if "item \<in> set (take n items)" for item
    using assms in_set_takeD [OF that] by simp
  then show ?thesis
    by (auto simp: ordered_quantity_def intro!: sum_list_nonneg)
qed

lemma in_range_nonneg:
  assumes "\<forall>item\<in>set items. 0 \<le> item_quantity item"
    and "\<forall>item\<in>set items. quantity (h (item_product item)) \<le> INT_MAX"
  shows "\<forall>n\<le>length items. \<forall>item\<in>set items.
      quantity (h (item_product item)) - ordered_quantity (take n items) (item_product item)
        \<le> INT_MAX"
proof (intro allI impI ballI)
  fix n item
  assume "item \<in> set items"
  with assms(2) have "quantity (h (item_product item)) \<le> INT_MAX"
    by simp
  with ordered_quantity_nonneg [OF assms(1), of n "item_product item"]
  show "quantity (h (item_product item)) - ordered_quantity (take n items) (item_product item)
      \<le> INT_MAX"
    by simp
qed

text \<open>
  When no two lines of the cart share a product, the validation of the cart is enough for
  the loop over \<open>reduceQuantity\<close> to run to its end.
\<close>

lemma reduce_loop_distinct:
  "distinct (map item_product items) \<Longrightarrow> validate_loop now h items = None \<Longrightarrow>
   fst (reduce_loop h items) = None"
proof (induction items arbitrary: h)
  case Nil
  then show ?case by simp
next
  case (Cons item rest)
  let ?p = "item_product item"
  let ?h1 = "h(?p := (h ?p)\<lparr>quantity := wrap_int (quantity (h ?p) - item_quantity item)\<rparr>)"
  from Cons.prems(2) have le: "item_quantity item \<le> quantity (h ?p)"
    and v: "validate_loop now h rest = None"
    by (auto split: if_splits)
  from Cons.prems(1) have "\<forall>i\<in>set rest. item_product i \<noteq> ?p"
    by (auto simp: image_iff)
  then have "\<forall>i\<in>set rest. ?h1 (item_product i) = h (item_product i)"
    by simp
  then have v1: "validate_loop now ?h1 rest = None"
    using v validate_loop_cong [of rest ?h1 h now] by simp
  from Cons.prems(1) have d: "distinct (map item_product rest)"
    by simp
  from Cons.IH [OF d v1] have "fst (reduce_loop ?h1 rest) = None" .
  with le show ?case by (simp add: reduceQuantity_def)
qed

subsection \<open>What a checkout that returns has done\<close>

lemma checkout_ok:
  assumes "checkout now st cart = (None, st')"
  shows "cart \<noteq> []"
    and "validate_loop now (products st) cart = None"
    and "\<not> balance (customer st) <
           calculateSubtotal (products st) cart + calculateShippingFee (products st) cart"
    and "reduce_loop (products st) cart = (None, products st')"
    and "customer st' = (customer st)\<lparr>balance := balance (customer st) -
           (calculateSubtotal (products st) cart + calculateShippingFee (products st) cart)\<rparr>"
  using assms
  by (auto simp: checkout_def isEmpty_def Let_def deductBalance_def
           split: if_splits option.splits prod.splits)

lemma checkout_ok_cout:
  assumes "checkout now st cart = (None, st')"
  shows "cout st' =
     receipt_loop (products st') cart
       ((if getShippableItems (products st') cart \<noteq> []
         then ship (getShippableItems (products st') cart) (cout st) else cout st) @
        [OutStr ''\<newline>** Checkout receipt **\<newline>'']) @
     [OutStr ''----------------------\<newline>'',
      OutStr (''Subtotal'' @ tab), OutDouble (calculateSubtotal (products st) cart),
      OutStr ''\<newline>'',
      OutStr (''Shipping'' @ tab), OutDouble (calculateShippingFee (products st) cart),
      OutStr ''\<newline>'',
      OutStr (''Amount'' @ tab),
      OutDouble (calculateSubtotal (products st) cart + calculateShippingFee (products st) cart),
      OutStr ''\<newline>'']"
proof -
  have "cout st' = cout (snd (checkout now st cart))"
    by (simp add: assms)
  also have "\<dots> =
     receipt_loop (products st') cart
       ((if getShippableItems (products st') cart \<noteq> []
         then ship (getShippableItems (products st') cart) (cout st) else cout st) @
        [OutStr ''\<newline>** Checkout receipt **\<newline>'']) @
     [OutStr ''----------------------\<newline>'',
      OutStr (''Subtotal'' @ tab), OutDouble (calculateSubtotal (products st) cart),
      OutStr ''\<newline>'',
      OutStr (''Shipping'' @ tab), OutDouble (calculateShippingFee (products st) cart),
      OutStr ''\<newline>'',
      OutStr (''Amount'' @ tab),
      OutDouble (calculateSubtotal (products st) cart + calculateShippingFee (products st) cart),
      OutStr ''\<newline>'']"
    using checkout_ok(1-4) [OF assms]
    by (simp add: checkout_def isEmpty_def Let_def deductBalance_def)
  finally show ?thesis .
qed

subsection \<open>What a checkout that throws has done\<close>

text \<open>
  A checkout that throws has printed nothing and has left the customer as it was. It has
  left the products as they were too when no two lines of the cart share a product.
\<close>

lemma checkout_failure_customer:
  "checkout now st cart = (Some e, st') \<Longrightarrow> customer st' = customer st \<and> cout st' = cout st"
  by (auto simp: checkout_def Let_def deductBalance_def
           split: if_splits option.splits prod.splits)

lemma checkout_failure_distinct:
  assumes "distinct (map item_product cart)" and "checkout now st cart = (Some e, st')"
  shows "st' = st"
proof (cases "validate_loop now (products st) cart")
  case None
  from reduce_loop_distinct [OF assms(1) None]
  obtain h' where "reduce_loop (products st) cart = (None, h')"
    by (cases "reduce_loop (products st) cart") auto
  with assms(2) None show ?thesis
    by (auto simp: checkout_def Let_def deductBalance_def split: if_splits)
next
  case (Some e')
  with assms(2) show ?thesis
    by (auto simp: checkout_def split: if_splits)
qed

section \<open>The claims\<close>

subsection \<open>C1: a failed checkout and the state\<close>

text \<open>
  C1 says that a checkout that fails leaves the stock of every product of the cart and the
  balance of the customer as they were. The cart below holds two lines of six for the
  cheese, whose stock is ten. Each line passes the validation on its own and the customer
  can pay, so the commit phase starts: the first \<open>reduceQuantity\<close> takes the stock to four,
  the second throws \<open>Not enough stock.\<close>, and the checkout fails with the stock at four.
  The balance is unchanged.
\<close>

theorem checkout_partial_commit:
  "fst (checkout 0 (shop 2000) [line 0 6, line 0 6]) = Some (runtime_error ''Not enough stock.'') \<and>
   quantity (products (shop 2000) 0) = 10 \<and>
   quantity (products (snd (checkout 0 (shop 2000) [line 0 6, line 0 6])) 0) = 4 \<and>
   balance (customer (snd (checkout 0 (shop 2000) [line 0 6, line 0 6]))) = 2000"
  by (simp add: eval_defs)

subsection \<open>C2: the shipping fee\<close>

text \<open>
  C2, as amended: \<open>calculateShippingFee\<close> is the sum of weight times quantity times 10 over
  the lines whose product is a \<open>ShippableProduct\<close>, the one class that derives from
  \<open>Shippable\<close> and has a weight; every other line adds zero, the lines of a digital product
  and also those of a perishable product, although \<open>isShippable\<close> holds for it.
\<close>

theorem calculateShippingFee_sum:
  "calculateShippingFee h items =
     (\<Sum>item\<leftarrow>items.
        case derived (h (item_product item)) of
          ExpirableProduct expiryDate \<Rightarrow> 0
        | ShippableProduct weight \<Rightarrow> weight * of_int (item_quantity item) * 10
        | DigitalProduct \<Rightarrow> 0)"
  using fee_loop_sum [of h items 0]
  by (simp add: calculateShippingFee_def)

text \<open>
  C2 as stated fails on a perishable product: \<open>isShippable\<close> holds for the milk, yet a cart
  of three of it has the shipping fee zero, which is not a unit weight times 3 times 10 for
  any positive unit weight.
\<close>

theorem perishable_fee_counterexample:
  "isShippable (catalog 4) \<and>
   calculateShippingFee catalog [line 4 3] = 0 \<and>
   \<not> (\<exists>unitWeightKg. 0 < unitWeightKg \<and>
          calculateShippingFee catalog [line 4 3] = unitWeightKg * of_int 3 * 10)"
  by (simp add: catalog_simps milk_def line_def isShippable_def calculateShippingFee_def
        dynamic_pointer_cast_Shippable_def)

subsection \<open>C3: conservation on success\<close>

text \<open>
  C3, as amended: after a checkout that succeeds and in which no subtraction from a stock
  overflows the \<open>int\<close>, the stock of every product is its stock before minus the sum of the
  quantities of all the cart lines of that product; for a line \<open>(p, q)\<close> that is the only
  line of its product this is the stock before minus \<open>q\<close>. The balance of the customer is
  the balance before minus subtotal plus shipping fee. The hypothesis on the subtractions
  is that, for every product of the cart and every initial segment of the cart, the stock
  before minus the quantities that the segment orders of the product is at most
  \<open>INT_MAX\<close>; by \<open>in_range_nonneg\<close> it holds for every cart without a negative quantity.
\<close>

theorem checkout_conservation:
  assumes "checkout now st cart = (None, st')"
    and "\<forall>n\<le>length cart. \<forall>item\<in>set cart.
      quantity (products st (item_product item)) -
        ordered_quantity (take n cart) (item_product item) \<le> INT_MAX"
  shows "(\<forall>r. quantity (products st' r) = quantity (products st r) - ordered_quantity cart r) \<and>
         (\<forall>item\<in>set cart.
            filter (\<lambda>other. item_product other = item_product item) cart = [item] \<longrightarrow>
            quantity (products st' (item_product item)) =
              quantity (products st (item_product item)) - item_quantity item) \<and>
         balance (customer st') = balance (customer st) -
           (calculateSubtotal (products st) cart + calculateShippingFee (products st) cart)"
proof -
  have stock: "quantity (products st' r) = quantity (products st r) - ordered_quantity cart r"
    for r
    using reduce_loop_ok [OF checkout_ok(4) [OF assms(1)] assms(2), of r] by simp
  have "quantity (products st' (item_product item)) =
          quantity (products st (item_product item)) - item_quantity item"
    if "filter (\<lambda>other. item_product other = item_product item) cart = [item]" for item
    using stock [of "item_product item"] that by (simp add: ordered_quantity_def)
  with stock checkout_ok(5) [OF assms(1)] show ?thesis
    by simp
qed

text \<open>
  The cart of the first use case of \<open>main\<close>: two of the cheese, one of the biscuits and one
  scratch card, with a balance of 2000.
\<close>

theorem checkout_conservation_witness:
  "fst (checkout 0 (shop 2000) [line 0 2, line 1 1, line 3 1]) = None \<and>
   quantity (products (snd (checkout 0 (shop 2000) [line 0 2, line 1 1, line 3 1])) 0) = 8 \<and>
   quantity (products (snd (checkout 0 (shop 2000) [line 0 2, line 1 1, line 3 1])) 1) = 4 \<and>
   quantity (products (snd (checkout 0 (shop 2000) [line 0 2, line 1 1, line 3 1])) 3) = 99 \<and>
   balance (customer (snd (checkout 0 (shop 2000) [line 0 2, line 1 1, line 3 1]))) = 1589"
proof -
  let ?cart = "[line 0 2, line 1 1, line 3 1]"
  have ok: "fst (checkout 0 (shop 2000) ?cart) = None"
    by (simp add: eval_defs)
  then have run: "checkout 0 (shop 2000) ?cart = (None, snd (checkout 0 (shop 2000) ?cart))"
    by (simp add: prod_eq_iff)
  have "\<forall>item\<in>set ?cart. 0 \<le> item_quantity item"
    and "\<forall>item\<in>set ?cart. quantity (products (shop 2000) (item_product item)) \<le> INT_MAX"
    by (simp_all add: shop_def line_def catalog_simps cheese_def biscuits_def scratchCard_def
          INT_MAX_def)
  from checkout_conservation [OF run in_range_nonneg [OF this]] ok show ?thesis
    by (simp add: eval_defs)
qed

text \<open>
  C3 as stated fails when two lines share a product: with two and three of the cheese in
  the cart the checkout succeeds, and the stock of the cheese is not its stock before
  minus the two of the first line (it is five, not eight).
\<close>

theorem checkout_duplicate_counterexample:
  "fst (checkout 0 (shop 2000) [line 0 2, line 0 3]) = None \<and>
   quantity (products (snd (checkout 0 (shop 2000) [line 0 2, line 0 3])) 0) \<noteq>
     quantity (products (shop 2000) 0) - item_quantity (line 0 2)"
  by (simp add: eval_defs)

text \<open>
  Where the hypothesis on the subtractions fails: a line of \<open>INT_MIN\<close> of the cheese is
  accepted by \<open>addToCart\<close> and passes every check of \<open>checkout\<close>, the subtraction from the
  stock of ten overflows, and the stock that results is negative.
\<close>

lemma checkout_wraps:
  "fst (addToCart catalog [] 0 INT_MIN) = None \<and>
   fst (checkout 0 (shop 0) [line 0 INT_MIN]) = None \<and>
   quantity (products (snd (checkout 0 (shop 0) [line 0 INT_MIN])) 0) = - 2147483638"
  by (simp add: addToCart_def eval_defs)

subsection \<open>C4: the shippable items\<close>

text \<open>
  C4, as amended: \<open>getShippableItems\<close> is the subsequence, in cart order, of the pairs of
  \<open>Shippable\<close> view and quantity of the lines whose product is a \<open>ShippableProduct\<close>; two
  lines of one product give two entries. A line of a perishable product gives no entry,
  although \<open>isShippable\<close> holds for it.
\<close>

theorem getShippableItems_subsequence:
  "getShippableItems h items =
     concat (map (\<lambda>item.
        case derived (h (item_product item)) of
          ExpirableProduct expiryDate \<Rightarrow> []
        | ShippableProduct weight \<Rightarrow>
            [(\<lparr>getName = name (h (item_product item)), getWeight = weight\<rparr>, item_quantity item)]
        | DigitalProduct \<Rightarrow> []) items)"
  using shippable_loop_concat [of h items "[]"]
  by (simp add: getShippableItems_def)

text \<open>
  C4 as stated fails on a perishable product: \<open>isShippable\<close> holds for the product of the
  only line of the cart, and the list of shippable items is empty.
\<close>

theorem perishable_manifest_counterexample:
  "isShippable (catalog (item_product (line 4 3))) \<and> getShippableItems catalog [line 4 3] = []"
  by (simp add: catalog_simps milk_def line_def isShippable_def getShippableItems_def
        dynamic_pointer_cast_Shippable_def)

subsection \<open>C5: the order of the checks\<close>

text \<open>
  C5: \<open>checkout\<close> fails with the first check that is violated, in this order. An empty cart
  gives \<open>Cart is empty.\<close> Otherwise, at the first line of the cart that is expired or asks
  for more than the stock, the error is \<open><name> is expired.\<close> when the product of that line
  is expired (whatever its stock), and \<open><name> is out of stock.\<close> when it is not expired and
  the quantity of the line exceeds the stock. When every line passes and the balance is
  below subtotal plus shipping fee, the error is \<open>Insufficient customer balance.\<close> In each
  of the four cases the state is the one before the call.
\<close>

theorem checkout_check_order:
  "(cart = [] \<longrightarrow> checkout now st cart = (Some (runtime_error ''Cart is empty.''), st)) \<and>
   (cart = pre @ item # post \<and>
    (\<forall>i\<in>set pre. \<not> isExpired now (products st (item_product i)) \<and>
       item_quantity i \<le> quantity (products st (item_product i))) \<and>
    isExpired now (products st (item_product item)) \<longrightarrow>
      checkout now st cart =
        (Some (runtime_error (name (products st (item_product item)) @ '' is expired.'')), st)) \<and>
   (cart = pre @ item # post \<and>
    (\<forall>i\<in>set pre. \<not> isExpired now (products st (item_product i)) \<and>
       item_quantity i \<le> quantity (products st (item_product i))) \<and>
    \<not> isExpired now (products st (item_product item)) \<and>
    quantity (products st (item_product item)) < item_quantity item \<longrightarrow>
      checkout now st cart =
        (Some (runtime_error (name (products st (item_product item)) @ '' is out of stock.'')), st)) \<and>
   (cart \<noteq> [] \<and>
    (\<forall>i\<in>set cart. \<not> isExpired now (products st (item_product i)) \<and>
       item_quantity i \<le> quantity (products st (item_product i))) \<and>
    balance (customer st) <
      calculateSubtotal (products st) cart + calculateShippingFee (products st) cart \<longrightarrow>
      checkout now st cart = (Some (runtime_error ''Insufficient customer balance.''), st))"
proof (intro conjI impI)
  assume "cart = []"
  then show "checkout now st cart = (Some (runtime_error ''Cart is empty.''), st)"
    by (simp add: checkout_def isEmpty_def)
next
  assume a: "cart = pre @ item # post \<and>
    (\<forall>i\<in>set pre. \<not> isExpired now (products st (item_product i)) \<and>
       item_quantity i \<le> quantity (products st (item_product i))) \<and>
    isExpired now (products st (item_product item))"
  then have "validate_loop now (products st) cart =
      Some (runtime_error (name (products st (item_product item)) @ '' is expired.''))"
    by (simp add: validate_loop_append)
  with a show "checkout now st cart =
      (Some (runtime_error (name (products st (item_product item)) @ '' is expired.'')), st)"
    by (simp add: checkout_def isEmpty_def)
next
  assume a: "cart = pre @ item # post \<and>
    (\<forall>i\<in>set pre. \<not> isExpired now (products st (item_product i)) \<and>
       item_quantity i \<le> quantity (products st (item_product i))) \<and>
    \<not> isExpired now (products st (item_product item)) \<and>
    quantity (products st (item_product item)) < item_quantity item"
  then have "validate_loop now (products st) cart =
      Some (runtime_error (name (products st (item_product item)) @ '' is out of stock.''))"
    by (simp add: validate_loop_append)
  with a show "checkout now st cart =
      (Some (runtime_error (name (products st (item_product item)) @ '' is out of stock.'')), st)"
    by (simp add: checkout_def isEmpty_def)
next
  assume a: "cart \<noteq> [] \<and>
    (\<forall>i\<in>set cart. \<not> isExpired now (products st (item_product i)) \<and>
       item_quantity i \<le> quantity (products st (item_product i))) \<and>
    balance (customer st) <
      calculateSubtotal (products st) cart + calculateShippingFee (products st) cart"
  then have "validate_loop now (products st) cart = None"
    by (simp add: validate_loop_pass)
  with a show "checkout now st cart = (Some (runtime_error ''Insufficient customer balance.''), st)"
    by (simp add: checkout_def isEmpty_def Let_def)
qed

text \<open>
  The four cases on the catalog of \<open>main\<close>: the empty cart; a cart whose second line is
  five of the milk, of which four are in stock, checked after its expiry date and before
  it; and the cart of \<open>main\<close>, which costs 2513 with a balance of 1000.
\<close>

theorem checkout_check_order_witness:
  "checkout 0 (shop 1000) [] = (Some (runtime_error ''Cart is empty.''), shop 1000) \<and>
   checkout 90000 (shop 1000) [line 0 2, line 4 5, line 1 9] =
     (Some (runtime_error ''Milk is expired.''), shop 1000) \<and>
   checkout 0 (shop 1000) [line 0 2, line 4 5, line 1 9] =
     (Some (runtime_error ''Milk is out of stock.''), shop 1000) \<and>
   checkout 0 (shop 1000) [line 0 2, line 1 1, line 3 1, line 2 1] =
     (Some (runtime_error ''Insufficient customer balance.''), shop 1000)"
proof -
  have fresh: "\<forall>i\<in>set [line 0 2]. \<not> isExpired now (products (shop 1000) (item_product i)) \<and>
       item_quantity i \<le> quantity (products (shop 1000) (item_product i))" for now
    by (simp add: shop_def line_def catalog_simps cheese_def isExpired_def)
  have 1: "checkout 0 (shop 1000) [] = (Some (runtime_error ''Cart is empty.''), shop 1000)"
    using checkout_check_order [where cart = "[]" and now = 0 and st = "shop 1000"] by simp
  have "isExpired 90000 (products (shop 1000) (item_product (line 4 5)))"
    by (simp add: shop_def line_def catalog_simps milk_def isExpired_def)
  with fresh [of 90000]
  have 2: "checkout 90000 (shop 1000) [line 0 2, line 4 5, line 1 9] =
     (Some (runtime_error (name (products (shop 1000) (item_product (line 4 5))) @ '' is expired.'')),
      shop 1000)"
    using checkout_check_order [where cart = "[line 0 2, line 4 5, line 1 9]" and now = 90000
        and st = "shop 1000" and pre = "[line 0 2]" and item = "line 4 5" and post = "[line 1 9]"]
    by simp
  have "\<not> isExpired 0 (products (shop 1000) (item_product (line 4 5))) \<and>
        quantity (products (shop 1000) (item_product (line 4 5))) < item_quantity (line 4 5)"
    by (simp add: shop_def line_def catalog_simps milk_def isExpired_def)
  with fresh [of 0]
  have 3: "checkout 0 (shop 1000) [line 0 2, line 4 5, line 1 9] =
     (Some (runtime_error (name (products (shop 1000) (item_product (line 4 5))) @ '' is out of stock.'')),
      shop 1000)"
    using checkout_check_order [where cart = "[line 0 2, line 4 5, line 1 9]" and now = 0
        and st = "shop 1000" and pre = "[line 0 2]" and item = "line 4 5" and post = "[line 1 9]"]
    by simp
  have "(\<forall>i\<in>set [line 0 2, line 1 1, line 3 1, line 2 1].
           \<not> isExpired 0 (products (shop 1000) (item_product i)) \<and>
           item_quantity i \<le> quantity (products (shop 1000) (item_product i))) \<and>
        balance (customer (shop 1000)) <
          calculateSubtotal (products (shop 1000)) [line 0 2, line 1 1, line 3 1, line 2 1] +
          calculateShippingFee (products (shop 1000)) [line 0 2, line 1 1, line 3 1, line 2 1]"
    by (simp add: shop_def line_def catalog_simps cheese_def biscuits_def tv_def scratchCard_def
          isExpired_def calculateSubtotal_def calculateShippingFee_def getTotalPrice_def
          dynamic_pointer_cast_Shippable_def)
  then have 4: "checkout 0 (shop 1000) [line 0 2, line 1 1, line 3 1, line 2 1] =
     (Some (runtime_error ''Insufficient customer balance.''), shop 1000)"
    using checkout_check_order [where cart = "[line 0 2, line 1 1, line 3 1, line 2 1]"
        and now = 0 and st = "shop 1000"]
    by simp
  from 1 2 3 4 show ?thesis
    by (simp add: shop_def line_def catalog_simps milk_def)
qed

subsection \<open>C6: reducing the stock\<close>

text \<open>
  C6, as amended: when the amount exceeds the stock, \<open>reduceQuantity\<close> throws the
  \<open>runtime_error\<close> with the message \<open>Not enough stock.\<close> and leaves the product as it was;
  otherwise, when the stock minus the amount is at most \<open>INT_MAX\<close>, it does not throw, the
  stock is the stock before minus the amount, and nothing else of the product changes. The
  difference is at most \<open>INT_MAX\<close> in particular for every amount that is not negative.
  Nothing is said of the stock after a subtraction that overflows.
\<close>

theorem reduceQuantity_cases:
  "(quantity p < amount \<longrightarrow>
      reduceQuantity amount p = (Some (runtime_error ''Not enough stock.''), p)) \<and>
   (amount \<le> quantity p \<and> quantity p - amount \<le> INT_MAX \<longrightarrow>
      fst (reduceQuantity amount p) = None \<and>
      quantity (snd (reduceQuantity amount p)) = quantity p - amount \<and>
      snd (reduceQuantity amount p) = p\<lparr>quantity := quantity p - amount\<rparr>) \<and>
   (0 \<le> amount \<and> amount \<le> quantity p \<and> quantity p \<le> INT_MAX \<longrightarrow>
      fst (reduceQuantity amount p) = None \<and>
      quantity (snd (reduceQuantity amount p)) = quantity p - amount \<and>
      snd (reduceQuantity amount p) = p\<lparr>quantity := quantity p - amount\<rparr>)"
proof (intro conjI impI)
  assume "quantity p < amount"
  then show "reduceQuantity amount p = (Some (runtime_error ''Not enough stock.''), p)"
    by (simp add: reduceQuantity_def)
next
  assume "amount \<le> quantity p \<and> quantity p - amount \<le> INT_MAX"
  then have "reduceQuantity amount p = (None, p\<lparr>quantity := quantity p - amount\<rparr>)"
    by (simp add: reduceQuantity_in_range)
  then show "fst (reduceQuantity amount p) = None"
    and "quantity (snd (reduceQuantity amount p)) = quantity p - amount"
    and "snd (reduceQuantity amount p) = p\<lparr>quantity := quantity p - amount\<rparr>"
    by simp_all
next
  assume "0 \<le> amount \<and> amount \<le> quantity p \<and> quantity p \<le> INT_MAX"
  then have "reduceQuantity amount p = (None, p\<lparr>quantity := quantity p - amount\<rparr>)"
    by (simp add: reduceQuantity_in_range)
  then show "fst (reduceQuantity amount p) = None"
    and "quantity (snd (reduceQuantity amount p)) = quantity p - amount"
    and "snd (reduceQuantity amount p) = p\<lparr>quantity := quantity p - amount\<rparr>"
    by simp_all
qed

text \<open>
  Six and two from the five biscuits in stock, and minus two, which takes the stock to
  seven.
\<close>

theorem reduceQuantity_cases_witness:
  "reduceQuantity 6 biscuits = (Some (runtime_error ''Not enough stock.''), biscuits) \<and>
   fst (reduceQuantity 2 biscuits) = None \<and>
   quantity (snd (reduceQuantity 2 biscuits)) = 3 \<and>
   fst (reduceQuantity (- 2) biscuits) = None \<and>
   quantity (snd (reduceQuantity (- 2) biscuits)) = 7"
proof -
  have lt: "quantity biscuits < 6"
    and nonneg: "0 \<le> (2::int) \<and> 2 \<le> quantity biscuits \<and> quantity biscuits \<le> INT_MAX"
    and fits: "- 2 \<le> quantity biscuits \<and> quantity biscuits - (- 2) \<le> INT_MAX"
    by (simp_all add: biscuits_def INT_MAX_def)
  from reduceQuantity_cases [of biscuits 6] lt
  have "reduceQuantity 6 biscuits = (Some (runtime_error ''Not enough stock.''), biscuits)"
    by blast
  moreover from reduceQuantity_cases [of biscuits 2] nonneg
  have "fst (reduceQuantity 2 biscuits) = None \<and>
        quantity (snd (reduceQuantity 2 biscuits)) = quantity biscuits - 2"
    by blast
  moreover from reduceQuantity_cases [of biscuits "- 2"] fits
  have "fst (reduceQuantity (- 2) biscuits) = None \<and>
        quantity (snd (reduceQuantity (- 2) biscuits)) = quantity biscuits - (- 2)"
    by blast
  ultimately show ?thesis by (simp add: biscuits_def)
qed

text \<open>
  C6 as stated fails on the message: six from the five biscuits in stock is refused, and
  the error is not the one with the message \<open>Insufficient stock.\<close>
\<close>

theorem reduceQuantity_message_counterexample:
  "quantity biscuits < 6 \<and>
   fst (reduceQuantity 6 biscuits) \<noteq> Some (runtime_error ''Insufficient stock.'')"
  by (simp add: reduceQuantity_def biscuits_def)

subsection \<open>C7: adding to the cart\<close>

text \<open>
  C7: when the quantity exceeds the stock of the product, \<open>addToCart\<close> throws the
  \<open>runtime_error\<close> with the message \<open>Insufficient stock.\<close> and the items of the cart are as
  before; otherwise the items are the items before followed by one new line of that
  product and quantity, whatever lines the cart already holds. In both cases every
  product, and so its stock, is as before.
\<close>

theorem addToCart_cases:
  "(quantity (h product) < n \<longrightarrow>
      addToCart h items product n = (Some (runtime_error ''Insufficient stock.''), h, items)) \<and>
   (n \<le> quantity (h product) \<longrightarrow>
      addToCart h items product n =
        (None, h, items @ [\<lparr>item_product = product, item_quantity = n\<rparr>]))"
  by (simp add: addToCart_def)

theorem addToCart_cases_witness:
  "addToCart catalog [] 1 6 = (Some (runtime_error ''Insufficient stock.''), catalog, []) \<and>
   addToCart catalog [line 0 2] 0 3 = (None, catalog, [line 0 2, line 0 3])"
proof -
  have lt: "quantity (catalog 1) < 6" and le: "3 \<le> quantity (catalog 0)"
    by (simp_all add: catalog_simps biscuits_def cheese_def)
  from addToCart_cases [where h = catalog and product = 1 and n = 6 and items = "[]"] lt
  have "addToCart catalog [] 1 6 = (Some (runtime_error ''Insufficient stock.''), catalog, [])"
    by blast
  moreover
  from addToCart_cases [where h = catalog and product = 0 and n = 3 and items = "[line 0 2]"] le
  have "addToCart catalog [line 0 2] 0 3 =
          (None, catalog, [line 0 2] @ [\<lparr>item_product = 0, item_quantity = 3\<rparr>])"
    by blast
  ultimately show ?thesis by (simp add: line_def)
qed

subsection \<open>C8: the lines that the cart accepts\<close>

text \<open>
  C8, as amended: a call of \<open>addToCart\<close> that does not throw appends exactly the line of its
  arguments, and the quantity of that line is at most the stock that the product has at
  that moment. There is no lower bound on the quantity.
\<close>

theorem addToCart_accepts:
  "addToCart h items product n = (None, h', items') \<Longrightarrow>
     items' = items @ [\<lparr>item_product = product, item_quantity = n\<rparr>] \<and>
     item_quantity (last items') \<le> quantity (h (item_product (last items')))"
  by (auto simp: addToCart_def split: if_splits)

theorem addToCart_accepts_witness:
  "addToCart catalog [] 0 2 = (None, catalog, [line 0 2]) \<and>
   item_quantity (last [line 0 2]) \<le> quantity (catalog (item_product (last [line 0 2])))"
proof -
  have a: "addToCart catalog [] 0 2 = (None, catalog, [line 0 2])"
    by (simp add: addToCart_def catalog_simps cheese_def line_def)
  from addToCart_accepts [OF a] show ?thesis
    using a by (simp add: line_def)
qed

text \<open>
  C8 as stated fails on the lower bound: \<open>addToCart\<close> accepts the quantity zero, and the
  cart then holds a line whose quantity is not at least one.
\<close>

theorem addToCart_zero_counterexample:
  "addToCart catalog [] 0 0 = (None, catalog, [line 0 0]) \<and> \<not> 1 \<le> item_quantity (line 0 0)"
  by (simp add: addToCart_def catalog_simps cheese_def line_def)

subsection \<open>C9: a cart with nothing to ship\<close>

text \<open>
  C9: when \<open>isShippable\<close> holds for the product of no line of the cart and the checkout
  succeeds, then the shipping fee is zero, the customer pays the subtotal alone, the list
  of shippable items is empty, so that \<open>ship\<close> is not called, and what the checkout prints
  is the receipt and nothing before it, with 0 after \<open>Shipping\<close>.
\<close>

theorem checkout_digital_only:
  assumes "\<forall>item\<in>set cart. \<not> isShippable (products st (item_product item))"
    and "checkout now st cart = (None, st')"
  shows "calculateShippingFee (products st) cart = 0 \<and>
         getShippableItems (products st') cart = [] \<and>
         balance (customer st') = balance (customer st) - calculateSubtotal (products st) cart \<and>
         cout st' =
           cout st @ [OutStr ''\<newline>** Checkout receipt **\<newline>''] @
           receipt_loop (products st') cart [] @
           [OutStr ''----------------------\<newline>'',
            OutStr (''Subtotal'' @ tab), OutDouble (calculateSubtotal (products st) cart),
            OutStr ''\<newline>'',
            OutStr (''Shipping'' @ tab), OutDouble 0, OutStr ''\<newline>'',
            OutStr (''Amount'' @ tab), OutDouble (calculateSubtotal (products st) cart),
            OutStr ''\<newline>'']"
proof -
  from assms(1)
  have none: "\<forall>item\<in>set cart. dynamic_pointer_cast_Shippable (products st (item_product item)) = None"
    by (simp add: isShippable_cast)
  then have fee: "calculateShippingFee (products st) cart = 0"
    using no_Shippable_loops [of cart "products st" 0] by (simp add: calculateShippingFee_def)
  from checkout_ok(4,5) [OF assms(2)]
  have red: "reduce_loop (products st) cart = (None, products st')"
    and cust: "customer st' = (customer st)\<lparr>balance := balance (customer st) -
           (calculateSubtotal (products st) cart + calculateShippingFee (products st) cart)\<rparr>"
    by simp_all
  have "\<forall>item\<in>set cart. dynamic_pointer_cast_Shippable (products st' (item_product item)) = None"
    using none reduce_loop_cast [OF red] by simp
  then have manifest: "getShippableItems (products st') cart = []"
    using no_Shippable_loops [of cart "products st'" _ "[]"] by (simp add: getShippableItems_def)
  show ?thesis
    using fee manifest cust checkout_ok_cout [OF assms(2)]
      receipt_loop_append [of "products st'" cart
        "cout st @ [OutStr ''\<newline>** Checkout receipt **\<newline>'']"]
    by simp
qed

text \<open>Three scratch cards, the product at address 3, bought with a balance of 2000.\<close>

theorem checkout_digital_only_witness:
  "\<not> isShippable (products (shop 2000) (item_product (line 3 3))) \<and>
   fst (checkout 0 (shop 2000) [line 3 3]) = None \<and>
   calculateShippingFee (products (shop 2000)) [line 3 3] = 0 \<and>
   balance (customer (snd (checkout 0 (shop 2000) [line 3 3]))) = 1850 \<and>
   cout (snd (checkout 0 (shop 2000) [line 3 3])) =
     [OutStr ''\<newline>** Checkout receipt **\<newline>'',
      OutInt 3, OutStr ''x '', OutStr ''Scratch Card'', OutStr tab, OutDouble 150,
      OutStr ''\<newline>'',
      OutStr ''----------------------\<newline>'',
      OutStr (''Subtotal'' @ tab), OutDouble 150, OutStr ''\<newline>'',
      OutStr (''Shipping'' @ tab), OutDouble 0, OutStr ''\<newline>'',
      OutStr (''Amount'' @ tab), OutDouble 150, OutStr ''\<newline>'']"
proof -
  let ?cart = "[line 3 3]"
  have digital: "\<forall>item\<in>set ?cart. \<not> isShippable (products (shop 2000) (item_product item))"
    by (simp add: isShippable_def shop_def line_def catalog_simps scratchCard_def)
  have ok: "fst (checkout 0 (shop 2000) ?cart) = None"
    by (simp add: eval_defs)
  then have "checkout 0 (shop 2000) ?cart = (None, snd (checkout 0 (shop 2000) ?cart))"
    by (simp add: prod_eq_iff)
  from checkout_digital_only [OF digital this] digital ok show ?thesis
    by (simp add: eval_defs)
qed

subsection \<open>C10: shipping nothing\<close>

text \<open>
  C10: \<open>ship\<close> checks nothing about its argument and cannot throw. For the empty list it
  inserts the header, then the line of the total weight with the value 0 in fixed notation
  with one fractional digit, and no line of an item in between: from any formatting state
  the text printed is the header line followed by \<open>Total package weight 0.0kg\<close>.
\<close>

theorem ship_empty_manifest:
  "ship [] os =
     os @ [OutStr ''\<newline>** Shipment notice **\<newline>'', OutStr ''Total package weight '',
           fixed, setprecision 1, OutDouble 0, OutStr ''kg\<newline>''] \<and>
   render general f (ship [] []) =
     ''\<newline>** Shipment notice **\<newline>Total package weight 0.0kg\<newline>''"
  by (simp add: ship_def show_fixed_1_0)

end
